theory Spec2Isabelle
  imports Main "HOL-Library.Sublist"
begin

section \<open>JavaScript values as the two screens see them\<close>

text \<open>
  Both screens obtain \<open>data\<close> from \<open>await response.json()\<close>, so \<open>data\<close> is an
  arbitrary JSON value and not only an object with string members. A member list is kept
  in the order of the response text; reading a property takes the last member with that
  name, as \<open>JSON.parse\<close> does. A number is represented by an integer: the code modelled
  here only tests a number for being zero (falsy) and compares it with strings.

  A JavaScript string is a sequence of 16-bit code units; type \<open>string\<close> stands for the
  strings whose code units are below 256, one \<open>char\<close> per code unit, so that
  \<open>length\<close> is the \<open>.length\<close> of the source.
\<close>

datatype json =
    JNull
  | JBool bool
  | JNum int
  | JStr string
  | JArr "json list"
  | JObj "(string \<times> json) list"

text \<open>A value that may be \<open>undefined\<close>: \<open>None\<close> is \<open>undefined\<close>.\<close>

type_synonym jsval = "json option"

text \<open>ToBoolean: \<open>null\<close>, \<open>false\<close>, \<open>0\<close> and the empty string are falsy, arrays and
  objects are always truthy.\<close>

fun truthy :: "json \<Rightarrow> bool" where
  "truthy JNull = False"
| "truthy (JBool b) = b"
| "truthy (JNum n) = (n \<noteq> 0)"
| "truthy (JStr s) = (s \<noteq> [])"
| "truthy (JArr xs) = True"
| "truthy (JObj kvs) = True"

fun truthy_val :: "jsval \<Rightarrow> bool" where
  "truthy_val None = False"
| "truthy_val (Some v) = truthy v"

text \<open>The operator \<open>a || b\<close>: the left operand when it is truthy, else the right one.\<close>

definition js_or :: "jsval \<Rightarrow> jsval \<Rightarrow> jsval" where
  "js_or a b = (if truthy_val a then a else b)"

text \<open>
  Property access \<open>data.k\<close> on a non-nullish value, for the names the source reads
  (\<open>goldPrice1g\<close>, \<open>gold_price_1g\<close>, \<open>status\<close>, \<open>message\<close> and so on): an object
  yields its member, every other kind of value has no such property and yields
  \<open>undefined\<close>.
\<close>

fun getProp :: "json \<Rightarrow> string \<Rightarrow> jsval" where
  "getProp (JObj kvs) k = map_of (rev kvs) k"
| "getProp v k = None"

fun is_string :: "jsval \<Rightarrow> bool" where
  "is_string (Some (JStr s)) = True"
| "is_string v = False"

section \<open>Dashboard: the price snapshot\<close>

text \<open>Interface \<open>PriceData\<close>: three optional members. They are declared as strings
  and assigned from the untyped \<open>data\<close>, so at run time they hold whatever value the
  response carried.\<close>

record PriceData =
  goldPrice1g :: jsval
  goldPrice8g :: jsval
  silverPrice1g :: jsval

text \<open>The object literal handed to \<open>setPriceData\<close> in \<open>fetchPrices\<close>;
  \<open>a || b || c\<close> associates to the left.\<close>

definition priceSnapshot :: "json \<Rightarrow> PriceData" where
  "priceSnapshot data =
     \<lparr> goldPrice1g =
         js_or (js_or (getProp data ''goldPrice1g'') (getProp data ''gold_price_1g'')) (Some (JStr ''N/A'')),
       goldPrice8g =
         js_or (js_or (getProp data ''goldPrice8g'') (getProp data ''gold_price_8g'')) (Some (JStr ''N/A'')),
       silverPrice1g =
         js_or (js_or (getProp data ''silverPrice1g'') (getProp data ''silver_price_1g'')) (Some (JStr ''N/A'')) \<rparr>"

text \<open>The three fields, with the two spellings under which the response may carry each.\<close>

datatype field = Gold1g | Gold8g | Silver1g

fun fieldOf :: "field \<Rightarrow> PriceData \<Rightarrow> jsval" where
  "fieldOf Gold1g p = goldPrice1g p"
| "fieldOf Gold8g p = goldPrice8g p"
| "fieldOf Silver1g p = silverPrice1g p"

fun camelKey :: "field \<Rightarrow> string" where
  "camelKey Gold1g = ''goldPrice1g''"
| "camelKey Gold8g = ''goldPrice8g''"
| "camelKey Silver1g = ''silverPrice1g''"

fun snakeKey :: "field \<Rightarrow> string" where
  "snakeKey Gold1g = ''gold_price_1g''"
| "snakeKey Gold8g = ''gold_price_8g''"
| "snakeKey Silver1g = ''silver_price_1g''"

text \<open>The rule of the specification for one field: the value under the camelCase name,
  else the value under the snake_case name, else \<open>"N/A"\<close>, where a value counts when it
  is truthy.\<close>

definition aliased :: "json \<Rightarrow> string \<Rightarrow> string \<Rightarrow> jsval" where
  "aliased data camel snake =
     (if truthy_val (getProp data camel) then getProp data camel
      else if truthy_val (getProp data snake) then getProp data snake
      else Some (JStr ''N/A''))"

text \<open>A member of the response is a string or is missing.\<close>

definition string_or_absent :: "json \<Rightarrow> string \<Rightarrow> bool" where
  "string_or_absent data k = (getProp data k = None \<or> is_string (getProp data k))"

text \<open>The camelCase equivalent of a response: every snake_case member renamed to its
  camelCase spelling, all values kept.\<close>

definition camelName :: "string \<Rightarrow> string" where
  "camelName k =
     (if k = ''gold_price_1g'' then ''goldPrice1g''
      else if k = ''gold_price_8g'' then ''goldPrice8g''
      else if k = ''silver_price_1g'' then ''silverPrice1g''
      else k)"

fun camelized :: "json \<Rightarrow> json" where
  "camelized (JObj kvs) = JObj (map (\<lambda>(k, v). (camelName k, v)) kvs)"
| "camelized v = v"

text \<open>A response with only snake_case fields: it has no member under a camelCase name.\<close>

definition only_snake :: "json \<Rightarrow> bool" where
  "only_snake data =
     (getProp data ''goldPrice1g'' = None \<and> getProp data ''goldPrice8g'' = None
      \<and> getProp data ''silverPrice1g'' = None)"

text \<open>The same response with the member \<open>k\<close> absent.\<close>

fun without :: "string \<Rightarrow> json \<Rightarrow> json" where
  "without k (JObj kvs) = JObj (filter (\<lambda>(k', v). k' \<noteq> k) kvs)"
| "without k v = v"

section \<open>Strings\<close>

text \<open>\<open>s.includes(sub)\<close>: \<open>sub\<close> occurs in \<open>s\<close> at some position.\<close>

fun str_includes :: "string \<Rightarrow> string \<Rightarrow> bool" where
  "str_includes [] sub = (sub = [])"
| "str_includes (c # cs) sub = (prefix sub (c # cs) \<or> str_includes cs sub)"

text \<open>White space as \<open>trim\<close> sees it, among the code units below 256: tab, line feed,
  vertical tab, form feed, carriage return, space and no-break space.\<close>

definition is_space :: "char \<Rightarrow> bool" where
  "is_space c = (c \<in> set [CHR 0x09, CHR 0x0A, CHR 0x0B, CHR 0x0C, CHR 0x0D, CHR 0x20, CHR 0xA0])"

definition trim :: "string \<Rightarrow> string" where
  "trim s = rev (dropWhile is_space (rev (dropWhile is_space s)))"

text \<open>A number in a template literal: its decimal digits. \<open>digit_char\<close> is only
  applied to numbers below 10.\<close>

definition digit_char :: "nat \<Rightarrow> char" where
  "digit_char d = ''0123456789'' ! d"

function decimal :: "nat \<Rightarrow> string" where
  "decimal n = (if n < 10 then [digit_char n] else decimal (n div 10) @ [digit_char (n mod 10)])"
  by pat_completeness auto
termination
  by (relation "measure (\<lambda>n. n)") auto

section \<open>The request both screens make\<close>

text \<open>
  What the network gives back to one \<open>fetch\<close> call: the promise rejects with an error
  carrying a message, or resolves with a response that has a status and a body;
  \<open>response.json()\<close> then rejects with a parse error or resolves with the parsed value.
\<close>

datatype body = BadJson string | Json json

datatype fetch_result = Rejected string | Response nat body

text \<open>\<open>response.ok\<close>: the status is in the range 200 to 299.\<close>

definition ok :: "nat \<Rightarrow> bool" where
  "ok status = (200 \<le> status \<and> status \<le> 299)"

text \<open>
  The \<open>try\<close> block of \<open>handleLogin\<close> and of \<open>fetchPrices\<close> up to \<open>const data\<close>:
  \<open>Inl m\<close> when an error with message \<open>m\<close> is thrown and caught, \<open>Inr data\<close> when
  \<open>data\<close> is reached.
\<close>

fun tryFetch :: "fetch_result \<Rightarrow> string + json" where
  "tryFetch (Rejected m) = Inl m"
| "tryFetch (Response status b) =
     (if \<not> ok status then Inl (''HTTP error! status: '' @ decimal status)
      else case b of BadJson m \<Rightarrow> Inl m | Json data \<Rightarrow> Inr data)"

text \<open>The three kinds of failure the specification tells apart by the text of the error.\<close>

datatype failure_kind = NetworkError | TimeoutError | OtherError

definition classify :: "string \<Rightarrow> failure_kind" where
  "classify m =
     (if sublist ''Network request failed'' m \<or> sublist ''fetch'' m then NetworkError
      else if sublist ''timeout'' m then TimeoutError
      else OtherError)"

section \<open>Login screen\<close>

text \<open>
  The state of \<open>LoginScreen\<close>. \<open>loginError\<close> and \<open>loginLoading\<close> are the hooks
  \<open>error\<close> and \<open>loading\<close> of that screen; \<open>error\<close> can hold whatever value the
  response carried under \<open>message\<close>. \<open>requests\<close> lists the URLs passed to \<open>fetch\<close>
  and \<open>pushed\<close> the routes passed to \<open>router.push\<close>.
\<close>

record LoginState =
  mobileNumber :: string
  password :: string
  loginLoading :: bool
  loginError :: jsval
  requests :: "string list"
  pushed :: "string list"

definition validateInputs :: "LoginState \<Rightarrow> bool \<times> LoginState" where
  "validateInputs s =
     (if trim (mobileNumber s) = [] then
        (False, s\<lparr>loginError := Some (JStr ''Mobile number is required'')\<rparr>)
      else if trim (password s) = [] then
        (False, s\<lparr>loginError := Some (JStr ''Password is required'')\<rparr>)
      else if length (mobileNumber s) < 10 then
        (False, s\<lparr>loginError := Some (JStr ''Please enter a valid mobile number'')\<rparr>)
      else (True, s))"

definition loginUrl :: "LoginState \<Rightarrow> string" where
  "loginUrl s =
     ''http://smjuthangarai.in/RestApi/restApiPHP.php?option=LoginVerifyCustomer&mobileNumber=''
       @ mobileNumber s @ ''&password='' @ password s"

text \<open>The condition of the \<open>if\<close> on the parsed response.\<close>

definition loginSuccess :: "json \<Rightarrow> bool" where
  "loginSuccess data =
     (truthy data \<and>
       (getProp data ''status'' = Some (JStr ''success'')
        \<or> getProp data ''result'' = Some (JStr ''success'')
        \<or> getProp data ''message'' = Some (JStr ''Login successful'')))"

text \<open>The two branches of that \<open>if\<close>.\<close>

definition onLoginData :: "json \<Rightarrow> LoginState \<Rightarrow> LoginState" where
  "onLoginData data s =
     (if loginSuccess data then s\<lparr>pushed := pushed s @ [''/dashboard'']\<rparr>
      else s\<lparr>loginError :=
               js_or (getProp data ''message'') (Some (JStr ''Invalid credentials. Please try again.''))\<rparr>)"

text \<open>The message chosen in the \<open>catch\<close> block.\<close>

definition loginCatch :: "string \<Rightarrow> string" where
  "loginCatch m =
     (if str_includes m ''Network request failed'' \<or> str_includes m ''fetch'' then
        ''Network connection error. Please check your internet connection and try again.''
      else if str_includes m ''timeout'' then ''Request timeout. Please try again.''
      else ''Login failed. Please check your credentials and try again.'')"

text \<open>\<open>handleLogin\<close>, with the network's answer to a URL as a parameter.\<close>

definition handleLogin :: "(string \<Rightarrow> fetch_result) \<Rightarrow> LoginState \<Rightarrow> LoginState" where
  "handleLogin net s =
     (let s1 = s\<lparr>loginError := Some (JStr [])\<rparr>;
          (valid, s2) = validateInputs s1
      in if \<not> valid then s2
         else
           let s3 = s2\<lparr>loginLoading := True\<rparr>;
               s4 = s3\<lparr>requests := requests s3 @ [loginUrl s3]\<rparr>;
               s5 = (case tryFetch (net (loginUrl s3)) of
                       Inr data \<Rightarrow> onLoginData data s4
                     | Inl m \<Rightarrow> s4\<lparr>loginError := Some (JStr (loginCatch m))\<rparr>)
           in s5\<lparr>loginLoading := False\<rparr>)"

text \<open>The messages of the login screen for the three kinds of failure.\<close>

fun loginMessage :: "failure_kind \<Rightarrow> string" where
  "loginMessage NetworkError =
     ''Network connection error. Please check your internet connection and try again.''"
| "loginMessage TimeoutError = ''Request timeout. Please try again.''"
| "loginMessage OtherError = ''Login failed. Please check your credentials and try again.''"

section \<open>Dashboard screen\<close>

record DashState =
  priceData :: PriceData
  loading :: bool
  refreshing :: bool
  error :: string
  lastUpdated :: "nat option"

text \<open>The initial values of the five \<open>useState\<close> hooks; \<open>{}\<close> has no member.\<close>

definition initialState :: DashState where
  "initialState =
     \<lparr> priceData = \<lparr> goldPrice1g = None, goldPrice8g = None, silverPrice1g = None \<rparr>,
       loading = False, refreshing = False, error = [], lastUpdated = None \<rparr>"

text \<open>\<open>fetchPrices\<close> up to its first \<open>await\<close>.\<close>

definition fetchPricesBegin :: "bool \<Rightarrow> DashState \<Rightarrow> DashState" where
  "fetchPricesBegin isRefresh s =
     (let s1 = (if isRefresh then s\<lparr>refreshing := True\<rparr> else s\<lparr>loading := True\<rparr>)
      in s1\<lparr>error := []\<rparr>)"

definition dashCatch :: "string \<Rightarrow> string" where
  "dashCatch m =
     (if str_includes m ''Network request failed'' \<or> str_includes m ''fetch'' then
        ''Network connection error. Please check your internet connection.''
      else if str_includes m ''timeout'' then ''Request timeout. Please try again.''
      else ''Failed to fetch prices. Please try again.'')"

text \<open>
  \<open>fetchPrices\<close> from the moment the network has answered: the rest of the \<open>try\<close>
  block, the \<open>catch\<close> block and the \<open>finally\<close> block. \<open>now\<close> is the value of
  \<open>new Date()\<close>.
\<close>

definition fetchPricesSettle :: "fetch_result \<Rightarrow> nat \<Rightarrow> DashState \<Rightarrow> DashState" where
  "fetchPricesSettle r now s =
     (let s1 = (case tryFetch r of
                  Inr data \<Rightarrow>
                    (if truthy data then s\<lparr>priceData := priceSnapshot data, lastUpdated := Some now\<rparr>
                     else s\<lparr>error := ''No price data available''\<rparr>)
                | Inl m \<Rightarrow> s\<lparr>error := dashCatch m\<rparr>)
      in s1\<lparr>loading := False, refreshing := False\<rparr>)"

text \<open>One whole call \<open>fetchPrices(isRefresh)\<close> with nothing else in between.\<close>

definition fetchPrices :: "bool \<Rightarrow> fetch_result \<Rightarrow> nat \<Rightarrow> DashState \<Rightarrow> DashState" where
  "fetchPrices isRefresh r now s = fetchPricesSettle r now (fetchPricesBegin isRefresh s)"

text \<open>A fetch that succeeds: a 2xx response whose body parses to a truthy value. Every
  other answer is a failed fetch: a rejected request, a status outside 2xx, a body that
  does not parse, a falsy body.\<close>

definition fetchSucceeds :: "fetch_result \<Rightarrow> bool" where
  "fetchSucceeds r = (case tryFetch r of Inr data \<Rightarrow> truthy data | Inl m \<Rightarrow> False)"

fun dashMessage :: "failure_kind \<Rightarrow> string" where
  "dashMessage NetworkError = ''Network connection error. Please check your internet connection.''"
| "dashMessage TimeoutError = ''Request timeout. Please try again.''"
| "dashMessage OtherError = ''Failed to fetch prices. Please try again.''"

subsection \<open>What is rendered\<close>

text \<open>A \<open>PriceCard\<close> shows a spinner while \<open>loading && !refreshing\<close>, else the rupee
  sign followed by its \<open>price\<close>.\<close>

datatype card_view = Spinner | PriceText jsval

definition PriceCard :: "DashState \<Rightarrow> jsval \<Rightarrow> card_view" where
  "PriceCard s price = (if loading s \<and> \<not> refreshing s then Spinner else PriceText price)"

text \<open>The \<open>price\<close> handed to the card of a field: \<open>priceData.f || '0'\<close>.\<close>

definition cardPrice :: "field \<Rightarrow> DashState \<Rightarrow> jsval" where
  "cardPrice f s = js_or (fieldOf f (priceData s)) (Some (JStr ''0''))"

definition card :: "field \<Rightarrow> DashState \<Rightarrow> card_view" where
  "card f s = PriceCard s (cardPrice f s)"

text \<open>The error banner with its retry button is rendered when \<open>error\<close> is truthy.\<close>

definition errorBanner :: "DashState \<Rightarrow> string option" where
  "errorBanner s = (if error s \<noteq> [] then Some (error s) else None)"

subsection \<open>Overlapping fetches\<close>

text \<open>
  The screen runs on one thread: a call of \<open>fetchPrices\<close> runs up to its \<open>await\<close>,
  and later, when the network has answered, from there to its end; calls of other
  handlers may run in between. \<open>inflight\<close> lists the \<open>isRefresh\<close> arguments of the
  calls that have begun and not yet ended.
\<close>

record World =
  screen :: DashState
  inflight :: "bool list"

datatype event = Begin bool | Settle nat fetch_result nat

fun step :: "World \<Rightarrow> event \<Rightarrow> World" where
  "step w (Begin isRefresh) =
     w\<lparr>screen := fetchPricesBegin isRefresh (screen w), inflight := inflight w @ [isRefresh]\<rparr>"
| "step w (Settle i r now) =
     (if i < length (inflight w) then
        w\<lparr>screen := fetchPricesSettle r now (screen w),
          inflight := take i (inflight w) @ drop (Suc i) (inflight w)\<rparr>
      else w)"

definition run :: "event list \<Rightarrow> World" where
  "run evs = foldl step \<lparr>screen = initialState, inflight = []\<rparr> evs"

subsection \<open>Mounting and the timer\<close>

text \<open>
  The effect of \<open>DashboardScreen\<close> over a clock that counts milliseconds. \<open>interval\<close>
  is the timer made by \<open>setInterval\<close>, as its delay and the time when it is next due;
  \<open>calls\<close> lists the calls of \<open>fetchPrices\<close> made by the effect and by the timer, each
  with its time and its \<open>isRefresh\<close> argument.
\<close>

record Clock =
  clock :: nat
  interval :: "(nat \<times> nat) option"
  calls :: "(nat \<times> bool) list"

text \<open>The body of the effect: \<open>fetchPrices()\<close>, then \<open>setInterval(..., 600000)\<close>.\<close>

definition mountEffect :: "Clock \<Rightarrow> Clock" where
  "mountEffect c =
     (let c1 = c\<lparr>calls := calls c @ [(clock c, False)]\<rparr>
      in c1\<lparr>interval := Some (600000, clock c1 + 600000)\<rparr>)"

text \<open>The cleanup the effect returns: \<open>clearInterval(interval)\<close>.\<close>

definition unmountEffect :: "Clock \<Rightarrow> Clock" where
  "unmountEffect c = c\<lparr>interval := None\<rparr>"

text \<open>One millisecond passes; a timer that has become due runs its callback
  \<open>fetchPrices()\<close> and is due again after its delay.\<close>

definition tick :: "Clock \<Rightarrow> Clock" where
  "tick c =
     (let t = Suc (clock c) in
      case interval c of
        None \<Rightarrow> c\<lparr>clock := t\<rparr>
      | Some (delay, due) \<Rightarrow>
          if t = due then c\<lparr>clock := t, interval := Some (delay, t + delay), calls := calls c @ [(t, False)]\<rparr>
          else c\<lparr>clock := t\<rparr>)"

text \<open>A network that gives the same answer to every request.\<close>

definition respond :: "fetch_result \<Rightarrow> string \<Rightarrow> fetch_result" where
  "respond r url = r"

section \<open>Properties of the price snapshot\<close>

declare decimal.simps [simp del]

lemma js_or_chain:
  "js_or (js_or (getProp d c) (getProp d s)) (Some (JStr ''N/A'')) = aliased d c s"
  by (simp add: js_or_def aliased_def)

lemma snapshot_field: "fieldOf f (priceSnapshot d) = aliased d (camelKey f) (snakeKey f)"
  by (cases f) (simp_all add: priceSnapshot_def js_or_chain)

lemma aliased_truthy: "truthy_val (aliased d c s)"
  by (simp add: aliased_def)

lemma aliased_defined: "aliased d c s \<noteq> None"
  using aliased_truthy [of d c s] by (cases "aliased d c s") simp_all

lemma aliased_string:
  "string_or_absent d c \<Longrightarrow> string_or_absent d s \<Longrightarrow> is_string (aliased d c s)"
  by (auto simp: aliased_def string_or_absent_def)

lemma snapshot_example:
  "priceSnapshot (JObj [(''gold_price_1g'', JStr ''6200''), (''goldPrice8g'', JStr ''49600'')]) =
     \<lparr> goldPrice1g = Some (JStr ''6200''), goldPrice8g = Some (JStr ''49600''),
       silverPrice1g = Some (JStr ''N/A'') \<rparr>"
  by (simp add: priceSnapshot_def js_or_def)

text \<open>
  Claim C1, as amended. For every parsed response and each of the three fields, the field
  of the snapshot is the value under the camelCase name when that is truthy, else the
  value under the snake_case name when that is truthy, else the string \<open>"N/A"\<close>; it is
  never \<open>undefined\<close> and always truthy; it is a string whenever the response carries
  strings (or nothing) under both names. The response
  \<open>{"gold_price_1g": "6200", "goldPrice8g": "49600"}\<close> gives
  \<open>{goldPrice1g: "6200", goldPrice8g: "49600", silverPrice1g: "N/A"}\<close>. That the
  snapshot has exactly these three fields is its type.
\<close>

theorem priceSnapshot_normalized:
  "fieldOf f (priceSnapshot d) = aliased d (camelKey f) (snakeKey f)
   \<and> fieldOf f (priceSnapshot d) \<noteq> None
   \<and> truthy_val (fieldOf f (priceSnapshot d))
   \<and> (string_or_absent d (camelKey f) \<and> string_or_absent d (snakeKey f)
        \<longrightarrow> is_string (fieldOf f (priceSnapshot d)))
   \<and> priceSnapshot (JObj [(''gold_price_1g'', JStr ''6200''), (''goldPrice8g'', JStr ''49600'')]) =
       \<lparr> goldPrice1g = Some (JStr ''6200''), goldPrice8g = Some (JStr ''49600''),
         silverPrice1g = Some (JStr ''N/A'') \<rparr>"
  by (simp add: snapshot_field aliased_truthy aliased_defined aliased_string snapshot_example)

theorem priceSnapshot_normalized_witness:
  "string_or_absent (JObj [(''gold_price_1g'', JStr ''6200''), (''goldPrice8g'', JStr ''49600'')]) ''goldPrice1g''
   \<and> string_or_absent (JObj [(''gold_price_1g'', JStr ''6200''), (''goldPrice8g'', JStr ''49600'')]) ''gold_price_1g''
   \<and> is_string (goldPrice1g (priceSnapshot (JObj [(''gold_price_1g'', JStr ''6200''), (''goldPrice8g'', JStr ''49600'')])))"
proof -
  let ?d = "JObj [(''gold_price_1g'', JStr ''6200''), (''goldPrice8g'', JStr ''49600'')]"
  have h: "string_or_absent ?d (camelKey Gold1g) \<and> string_or_absent ?d (snakeKey Gold1g)"
    by (simp add: string_or_absent_def)
  from priceSnapshot_normalized [of Gold1g ?d] h show ?thesis by simp
qed

text \<open>
  Claim C1 as stated fails: the response \<open>{"goldPrice1g": 6200}\<close>, a price sent as a
  JSON number, gives a snapshot whose field \<open>goldPrice1g\<close> is the number and not a
  string.
\<close>

theorem priceSnapshot_number_not_string:
  "\<not> is_string (goldPrice1g (priceSnapshot (JObj [(''goldPrice1g'', JNum 6200)])))"
  by (simp add: priceSnapshot_def js_or_def)

subsection \<open>The two spellings\<close>

lemma camelName_not_snake:
  "camelName k \<noteq> ''gold_price_1g''" "camelName k \<noteq> ''gold_price_8g''" "camelName k \<noteq> ''silver_price_1g''"
  by (simp_all add: camelName_def)

lemma map_of_renamed_none:
  "\<forall>k. f k \<noteq> s \<Longrightarrow> map_of (map (\<lambda>(k, v). (f k, v)) xs) s = None"
  by (induction xs) auto

lemma map_of_renamed:
  assumes r: "\<forall>k. k \<noteq> c \<longrightarrow> (f k = c) = (k = s)"
  shows "map_of xs c = None \<Longrightarrow> map_of (map (\<lambda>(k, v). (f k, v)) xs) c = map_of xs s"
proof (induction xs)
  case Nil
  show ?case by simp
next
  case (Cons kv xs)
  obtain k v where kv: "kv = (k, v)" by (cases kv)
  from Cons.prems kv have k: "k \<noteq> c" and rest: "map_of xs c = None"
    by (auto split: if_splits)
  from r k have "(f k = c) = (k = s)" by blast
  with Cons.IH [OF rest] kv show ?case by auto
qed

lemma camelized_snake: "getProp (camelized d) (snakeKey f) = None"
  by (cases d; cases f) (simp_all add: rev_map map_of_renamed_none camelName_not_snake)

lemma camelized_camel:
  "getProp d (camelKey f) = None \<Longrightarrow> getProp (camelized d) (camelKey f) = getProp d (snakeKey f)"
proof (cases d)
  case (JObj kvs)
  assume n: "getProp d (camelKey f) = None"
  have r: "\<forall>k. k \<noteq> camelKey f \<longrightarrow> (camelName k = camelKey f) = (k = snakeKey f)"
    by (cases f) (auto simp: camelName_def)
  from n JObj have "map_of (rev kvs) (camelKey f) = None" by simp
  from map_of_renamed [OF r this] JObj show ?thesis by (simp add: rev_map)
qed simp_all

lemma only_snake_field: "only_snake d \<Longrightarrow> getProp d (camelKey f) = None"
  by (cases f) (simp_all add: only_snake_def)

lemma camelized_field:
  assumes "only_snake d"
  shows "fieldOf f (priceSnapshot (camelized d)) = fieldOf f (priceSnapshot d)"
  using camelized_camel [OF only_snake_field [OF assms], of f] only_snake_field [OF assms, of f]
  by (simp add: snapshot_field aliased_def camelized_snake)

text \<open>
  Claim C5. A response that has only snake_case fields gives the same snapshot as the
  response that carries the same values under the camelCase names.
\<close>

theorem priceSnapshot_alias_transparent:
  "only_snake d \<Longrightarrow> priceSnapshot (camelized d) = priceSnapshot d"
  using camelized_field [of d Gold1g] camelized_field [of d Gold8g] camelized_field [of d Silver1g]
  by (cases "priceSnapshot (camelized d)"; cases "priceSnapshot d") simp

theorem priceSnapshot_alias_transparent_witness:
  "only_snake (JObj [(''gold_price_1g'', JStr ''6200''), (''silver_price_1g'', JStr ''80'')])
   \<and> priceSnapshot (camelized (JObj [(''gold_price_1g'', JStr ''6200''), (''silver_price_1g'', JStr ''80'')]))
     = priceSnapshot (JObj [(''gold_price_1g'', JStr ''6200''), (''silver_price_1g'', JStr ''80'')])
   \<and> goldPrice1g (priceSnapshot (JObj [(''gold_price_1g'', JStr ''6200''), (''silver_price_1g'', JStr ''80'')]))
     = Some (JStr ''6200'')"
proof -
  let ?d = "JObj [(''gold_price_1g'', JStr ''6200''), (''silver_price_1g'', JStr ''80'')]"
  have h: "only_snake ?d" by (simp add: only_snake_def)
  have v: "goldPrice1g (priceSnapshot ?d) = Some (JStr ''6200'')"
    by (simp add: priceSnapshot_def js_or_def)
  from h priceSnapshot_alias_transparent [OF h] v show ?thesis by simp
qed

subsection \<open>Falsy values\<close>

lemma map_of_filter_key:
  "map_of (filter (\<lambda>(k', v). k' \<noteq> k) xs) k' = (if k' = k then None else map_of xs k')"
  by (induction xs) auto

lemma getProp_without:
  "getProp (without k d) k' = (if k' = k then None else getProp d k')"
  by (cases d) (simp_all add: rev_filter map_of_filter_key)

lemma without_camel:
  "getProp d (camelKey f) = Some v \<Longrightarrow> \<not> truthy v \<Longrightarrow>
   priceSnapshot (without (camelKey f) d) = priceSnapshot d"
  by (cases f) (simp_all add: priceSnapshot_def getProp_without js_or_def)

lemma without_snake:
  "getProp d (snakeKey f) = Some v \<Longrightarrow> \<not> truthy v \<Longrightarrow>
   priceSnapshot (without (snakeKey f) d) = priceSnapshot d"
  by (cases f) (simp_all add: priceSnapshot_def getProp_without js_or_def)

text \<open>
  Claim C10. For every response and each field, a falsy value under the camelCase name
  gives the snapshot of the response without that member, so the field falls through to
  the snake_case value; a falsy value under the snake_case name gives the snapshot of the
  response without that member, so the field, when the camelCase value does not count
  either, is \<open>"N/A"\<close>.
\<close>

theorem priceSnapshot_falsy_as_absent:
  "(getProp d (camelKey f) = Some v \<and> \<not> truthy v \<longrightarrow>
      priceSnapshot d = priceSnapshot (without (camelKey f) d)
      \<and> fieldOf f (priceSnapshot d) = js_or (getProp d (snakeKey f)) (Some (JStr ''N/A'')))
   \<and> (getProp d (snakeKey f) = Some v \<and> \<not> truthy v \<longrightarrow>
      priceSnapshot d = priceSnapshot (without (snakeKey f) d)
      \<and> (\<not> truthy_val (getProp d (camelKey f)) \<longrightarrow> fieldOf f (priceSnapshot d) = Some (JStr ''N/A'')))"
  by (auto simp: without_camel without_snake snapshot_field aliased_def js_or_def)

theorem priceSnapshot_falsy_as_absent_witness:
  "getProp (JObj [(''goldPrice1g'', JStr []), (''gold_price_1g'', JStr ''6200'')]) ''goldPrice1g'' = Some (JStr [])
   \<and> \<not> truthy (JStr [])
   \<and> goldPrice1g (priceSnapshot (JObj [(''goldPrice1g'', JStr []), (''gold_price_1g'', JStr ''6200'')])) = Some (JStr ''6200'')
   \<and> getProp (JObj [(''gold_price_1g'', JStr [])]) ''gold_price_1g'' = Some (JStr [])
   \<and> \<not> truthy_val (getProp (JObj [(''gold_price_1g'', JStr [])]) ''goldPrice1g'')
   \<and> goldPrice1g (priceSnapshot (JObj [(''gold_price_1g'', JStr [])])) = Some (JStr ''N/A'')"
proof -
  let ?a = "JObj [(''goldPrice1g'', JStr []), (''gold_price_1g'', JStr ''6200'')]"
  let ?b = "JObj [(''gold_price_1g'', JStr [])]"
  have ha: "getProp ?a (camelKey Gold1g) = Some (JStr []) \<and> \<not> truthy (JStr [])" by simp
  have hb: "getProp ?b (snakeKey Gold1g) = Some (JStr []) \<and> \<not> truthy (JStr [])" by simp
  have hc: "\<not> truthy_val (getProp ?b (camelKey Gold1g))" by simp
  from priceSnapshot_falsy_as_absent [of ?a Gold1g "JStr []"] ha
  have "fieldOf Gold1g (priceSnapshot ?a) = js_or (getProp ?a (snakeKey Gold1g)) (Some (JStr ''N/A''))"
    by blast
  moreover from priceSnapshot_falsy_as_absent [of ?b Gold1g "JStr []"] hb hc
  have "fieldOf Gold1g (priceSnapshot ?b) = Some (JStr ''N/A'')"
    by blast
  ultimately show ?thesis by (simp add: js_or_def)
qed

section \<open>Properties of the dashboard state\<close>

lemma dashCatch_nonempty: "dashCatch m \<noteq> []"
  by (simp add: dashCatch_def)

lemma http_error_example:
  "fetchPricesSettle (Response 503 (Json (JObj [(''goldPrice1g'', JStr ''6200'')]))) 7 initialState =
     initialState\<lparr>error := ''Failed to fetch prices. Please try again.''\<rparr>"
proof -
  have "decimal 503 = ''503''"
    by (simp add: decimal.simps digit_char_def)
  then show ?thesis
    by (simp add: fetchPricesSettle_def ok_def dashCatch_def initialState_def)
qed

lemma success_example:
  "fetchPrices False (Response 200 (Json (JObj [(''goldPrice1g'', JStr ''6200'')]))) 1000 initialState =
     \<lparr> priceData = \<lparr> goldPrice1g = Some (JStr ''6200''), goldPrice8g = Some (JStr ''N/A''),
                      silverPrice1g = Some (JStr ''N/A'') \<rparr>,
       loading = False, refreshing = False, error = [], lastUpdated = Some 1000 \<rparr>"
  by (simp add: fetchPrices_def fetchPricesSettle_def fetchPricesBegin_def initialState_def ok_def
      priceSnapshot_def js_or_def)

text \<open>
  Claim C2. A fetch that fails (the request is rejected, the status is not 2xx, the body
  does not parse, or the parsed body is falsy) leaves \<open>priceData\<close> and \<open>lastUpdated\<close>
  as they were, from any state and so from one reached by a successful fetch; afterwards
  the error banner is shown and every card shows the price it had. Neither the start of
  a fetch nor a failing end assigns \<open>lastUpdated\<close>; a successful fetch sets it to the
  time of that fetch.
\<close>

theorem failed_fetch_keeps_prices:
  "(\<not> fetchSucceeds r \<longrightarrow>
      priceData (fetchPrices b r now s) = priceData s
      \<and> lastUpdated (fetchPrices b r now s) = lastUpdated s
      \<and> errorBanner (fetchPrices b r now s) \<noteq> None
      \<and> card f (fetchPrices b r now s) = PriceText (cardPrice f s))
   \<and> (\<not> fetchSucceeds r \<longrightarrow>
      priceData (fetchPricesSettle r now s) = priceData s
      \<and> lastUpdated (fetchPricesSettle r now s) = lastUpdated s)
   \<and> priceData (fetchPricesBegin b s) = priceData s
   \<and> lastUpdated (fetchPricesBegin b s) = lastUpdated s
   \<and> (fetchSucceeds r \<longrightarrow> lastUpdated (fetchPrices b r now s) = Some now)"
  by (auto simp: fetchSucceeds_def fetchPrices_def fetchPricesSettle_def fetchPricesBegin_def
      errorBanner_def card_def PriceCard_def cardPrice_def dashCatch_nonempty Let_def
      split: sum.splits)

theorem failed_fetch_keeps_prices_witness:
  "fetchSucceeds (Response 200 (Json (JObj [(''goldPrice1g'', JStr ''6200'')])))
   \<and> \<not> fetchSucceeds (Rejected ''Network request failed'')
   \<and> \<not> fetchSucceeds (Response 200 (Json JNull))
   \<and> \<not> fetchSucceeds (Response 503 (Json (JObj [(''goldPrice1g'', JStr ''6200'')])))
   \<and> fetchPrices True (Rejected ''Network request failed'') 2000
        (fetchPrices False (Response 200 (Json (JObj [(''goldPrice1g'', JStr ''6200'')]))) 1000 initialState) =
      \<lparr> priceData = \<lparr> goldPrice1g = Some (JStr ''6200''), goldPrice8g = Some (JStr ''N/A''),
                       silverPrice1g = Some (JStr ''N/A'') \<rparr>,
        loading = False, refreshing = False,
        error = ''Network connection error. Please check your internet connection.'',
        lastUpdated = Some 1000 \<rparr>"
proof -
  let ?good = "Response 200 (Json (JObj [(''goldPrice1g'', JStr ''6200'')]))"
  let ?s = "fetchPrices False ?good 1000 initialState"
  let ?bad = "Rejected ''Network request failed''"
  let ?t = "fetchPrices True ?bad 2000 ?s"
  have g: "fetchSucceeds ?good" by (simp add: fetchSucceeds_def ok_def)
  have b: "\<not> fetchSucceeds ?bad" by (simp add: fetchSucceeds_def)
  have n: "\<not> fetchSucceeds (Response 200 (Json JNull))"
    "\<not> fetchSucceeds (Response 503 (Json (JObj [(''goldPrice1g'', JStr ''6200'')])))"
    by (simp_all add: fetchSucceeds_def ok_def)
  from failed_fetch_keeps_prices [of ?bad True 2000 ?s Gold1g] b
  have keep: "priceData ?t = priceData ?s" "lastUpdated ?t = lastUpdated ?s" by blast+
  from failed_fetch_keeps_prices [of ?good False 1000 initialState Gold1g] g
  have "lastUpdated ?s = Some 1000" by blast
  have rest: "loading ?t = False" "refreshing ?t = False"
    "error ?t = ''Network connection error. Please check your internet connection.''"
    by (simp_all add: fetchPrices_def fetchPricesSettle_def fetchPricesBegin_def dashCatch_def)
  have "?t = \<lparr> priceData = priceData ?s, loading = False, refreshing = False,
        error = ''Network connection error. Please check your internet connection.'',
        lastUpdated = lastUpdated ?s \<rparr>"
    using keep rest by (cases ?t) simp
  with g b n show ?thesis by (simp add: success_example)
qed

subsection \<open>The two progress flags\<close>

lemma run_snoc: "run (evs @ [e]) = step (run evs) e"
  by (simp add: run_def)

lemma begin_flags:
  "refreshing (fetchPricesBegin True s)" "loading (fetchPricesBegin True s) = loading s"
  "loading (fetchPricesBegin False s)" "refreshing (fetchPricesBegin False s) = refreshing s"
  by (simp_all add: fetchPricesBegin_def)

lemma settle_flags:
  "\<not> loading (fetchPricesSettle r now s)" "\<not> refreshing (fetchPricesSettle r now s)"
  by (simp_all add: fetchPricesSettle_def Let_def)

lemma step_flags:
  assumes "loading (screen w) \<longrightarrow> False \<in> set (inflight w)"
    and "refreshing (screen w) \<longrightarrow> True \<in> set (inflight w)"
  shows "(loading (screen (step w e)) \<longrightarrow> False \<in> set (inflight (step w e)))
       \<and> (refreshing (screen (step w e)) \<longrightarrow> True \<in> set (inflight (step w e)))"
proof (cases e)
  case (Begin b)
  with assms show ?thesis by (cases b) (simp_all add: begin_flags)
next
  case (Settle i r now)
  with assms show ?thesis by (simp add: settle_flags)
qed

lemma run_flags:
  "(loading (screen (run evs)) \<longrightarrow> False \<in> set (inflight (run evs)))
   \<and> (refreshing (screen (run evs)) \<longrightarrow> True \<in> set (inflight (run evs)))"
proof (induction evs rule: rev_induct)
  case Nil
  show ?case by (simp add: run_def initialState_def)
next
  case (snoc e evs)
  then show ?case using step_flags [of "run evs" e] by (simp add: run_snoc)
qed

lemma two_kinds: "False \<in> set bs \<Longrightarrow> True \<in> set bs \<Longrightarrow> 2 \<le> length bs"
proof (cases bs)
  case Nil
  assume "False \<in> set bs" with Nil show ?thesis by simp
next
  case (Cons b cs)
  assume f: "False \<in> set bs" and t: "True \<in> set bs"
  show ?thesis
  proof (cases cs)
    case Nil
    with Cons f t show ?thesis by auto
  next
    case (Cons c ds)
    with \<open>bs = b # cs\<close> show ?thesis by simp
  qed
qed

text \<open>
  Claim C7, as amended. In every state reached by beginning and ending calls of
  \<open>fetchPrices\<close> in any order, \<open>loading\<close> is true only while a call without
  \<open>isRefresh\<close> is in flight and \<open>refreshing\<close> only while a manual refresh is in
  flight; so at most one of them is true whenever at most one call is in flight. A manual
  refresh sets only \<open>refreshing\<close>, every other call sets only \<open>loading\<close>, and the
  end of every call clears both. A manual refresh that begins while \<open>loading\<close> is
  true, or another call that begins while \<open>refreshing\<close> is true, leaves both flags
  true.
\<close>

theorem flags_need_inflight_fetch:
  "(loading (screen (run evs)) \<longrightarrow> False \<in> set (inflight (run evs)))
   \<and> (refreshing (screen (run evs)) \<longrightarrow> True \<in> set (inflight (run evs)))
   \<and> (length (inflight (run evs)) \<le> 1 \<longrightarrow>
        \<not> (loading (screen (run evs)) \<and> refreshing (screen (run evs))))
   \<and> refreshing (fetchPricesBegin True s) \<and> loading (fetchPricesBegin True s) = loading s
   \<and> loading (fetchPricesBegin False s) \<and> refreshing (fetchPricesBegin False s) = refreshing s
   \<and> \<not> loading (fetchPricesSettle r now s) \<and> \<not> refreshing (fetchPricesSettle r now s)
   \<and> (loading (screen (run evs)) \<longrightarrow>
        loading (screen (run (evs @ [Begin True]))) \<and> refreshing (screen (run (evs @ [Begin True]))))
   \<and> (refreshing (screen (run evs)) \<longrightarrow>
        loading (screen (run (evs @ [Begin False]))) \<and> refreshing (screen (run (evs @ [Begin False]))))"
proof -
  have "\<not> (loading (screen (run evs)) \<and> refreshing (screen (run evs)))"
    if "length (inflight (run evs)) \<le> 1"
    using run_flags [of evs] two_kinds [of "inflight (run evs)"] that by auto
  then show ?thesis
    using run_flags [of evs] by (simp add: begin_flags settle_flags run_snoc)
qed

theorem flags_need_inflight_fetch_witness:
  "loading (screen (run [Begin False])) \<and> inflight (run [Begin False]) = [False]
   \<and> refreshing (screen (run [Begin True])) \<and> inflight (run [Begin True]) = [True]
   \<and> length (inflight (run [Begin False])) \<le> 1
   \<and> \<not> refreshing (screen (run [Begin False]))
   \<and> loading (screen (run ([Begin True] @ [Begin False])))
   \<and> refreshing (screen (run ([Begin True] @ [Begin False])))
   \<and> loading (screen (run ([Begin False] @ [Begin True])))
   \<and> refreshing (screen (run ([Begin False] @ [Begin True])))"
proof -
  have a: "loading (screen (run [Begin False]))" "refreshing (screen (run [Begin True]))"
    "inflight (run [Begin False]) = [False]" "inflight (run [Begin True]) = [True]"
    by (simp_all add: run_def fetchPricesBegin_def initialState_def)
  have l: "length (inflight (run [Begin False])) \<le> 1" by (simp add: a)
  from flags_need_inflight_fetch [of "[Begin False]"] a l
  have n: "\<not> refreshing (screen (run [Begin False]))" by blast
  from flags_need_inflight_fetch [of "[Begin False]"] a
  have b: "loading (screen (run ([Begin False] @ [Begin True])))
     \<and> refreshing (screen (run ([Begin False] @ [Begin True])))" by blast
  from flags_need_inflight_fetch [of "[Begin True]"] a
  have c: "loading (screen (run ([Begin True] @ [Begin False])))
     \<and> refreshing (screen (run ([Begin True] @ [Begin False])))" by blast
  from a l n b c show ?thesis by blast
qed

text \<open>
  Claim C7 as stated fails: when the fetch issued on mount is still in flight and the
  user pulls to refresh, both flags are true.
\<close>

theorem overlap_sets_both_flags:
  "loading (screen (run [Begin False, Begin True]))
   \<and> refreshing (screen (run [Begin False, Begin True]))"
  by (simp add: run_def fetchPricesBegin_def initialState_def)

subsection \<open>The price cards\<close>

text \<open>
  Claim C9, as amended. In the initial state every price card shows the price \<open>"0"\<close>.
  In any state, a field of \<open>priceData\<close> that is missing or falsy gives its card the
  price \<open>"0"\<close>; the card shows the spinner while \<open>loading && !refreshing\<close> holds
  and that price otherwise.
\<close>

theorem card_fallback_zero:
  "card f initialState = PriceText (Some (JStr ''0''))
   \<and> (\<not> truthy_val (fieldOf f (priceData s)) \<longrightarrow>
        cardPrice f s = Some (JStr ''0'')
        \<and> card f s = (if loading s \<and> \<not> refreshing s then Spinner else PriceText (Some (JStr ''0''))))"
  by (cases f) (simp_all add: card_def PriceCard_def cardPrice_def js_or_def initialState_def)

theorem card_fallback_zero_witness:
  "\<not> truthy_val (fieldOf Gold1g (priceData (fetchPrices False (Rejected ''timeout'') 5 initialState)))
   \<and> card Gold1g (fetchPrices False (Rejected ''timeout'') 5 initialState) = PriceText (Some (JStr ''0''))"
proof -
  let ?s = "fetchPrices False (Rejected ''timeout'') 5 initialState"
  have h: "\<not> truthy_val (fieldOf Gold1g (priceData ?s))"
    by (simp add: fetchPrices_def fetchPricesSettle_def fetchPricesBegin_def initialState_def)
  have l: "\<not> loading ?s" by (simp add: fetchPrices_def fetchPricesSettle_def)
  from card_fallback_zero [of Gold1g ?s] h l show ?thesis by simp
qed

text \<open>
  Claim C9 as stated fails: once the fetch issued on mount has begun, no fetch has yet
  succeeded and the field is still missing, and the card shows the spinner, not
  \<open>"0"\<close>.
\<close>

theorem card_spinner_while_loading:
  "\<not> truthy_val (fieldOf Gold1g (priceData (fetchPricesBegin False initialState)))
   \<and> card Gold1g (fetchPricesBegin False initialState) = Spinner"
  by (simp add: fetchPricesBegin_def initialState_def card_def PriceCard_def)

subsection \<open>The timer\<close>

lemma div_step:
  assumes "0 < (p::nat)"
  shows "(Suc n = p * Suc (n div p)) = (Suc n mod p = 0)"
    and "Suc n div p = (if Suc n mod p = 0 then Suc (n div p) else n div p)"
proof -
  show d: "Suc n div p = (if Suc n mod p = 0 then Suc (n div p) else n div p)"
    by (simp add: div_Suc)
  show "(Suc n = p * Suc (n div p)) = (Suc n mod p = 0)"
  proof
    assume "Suc n = p * Suc (n div p)"
    then have "Suc n mod p = (p * Suc (n div p)) mod p" by simp
    then show "Suc n mod p = 0" by simp
  next
    assume z: "Suc n mod p = 0"
    then have "Suc n = p * (Suc n div p)" by (metis mult_div_mod_eq add.right_neutral)
    with d z show "Suc n = p * Suc (n div p)" by simp
  qed
qed

lemma ticks_mounted:
  "clock ((tick ^^ n) (mountEffect c)) = clock c + n
   \<and> interval ((tick ^^ n) (mountEffect c)) = Some (600000, clock c + 600000 * Suc (n div 600000))
   \<and> calls ((tick ^^ n) (mountEffect c)) =
       calls c @ map (\<lambda>k. (clock c + k * 600000, False)) [0..<Suc (n div 600000)]"
proof (induction n)
  case 0
  show ?case by (simp add: mountEffect_def Let_def)
next
  case (Suc n)
  define p :: nat where "p = 600000"
  have p: "0 < p" by (simp add: p_def)
  let ?w = "(tick ^^ n) (mountEffect c)"
  from Suc have w: "clock ?w = clock c + n" "interval ?w = Some (p, clock c + p * Suc (n div p))"
    "calls ?w = calls c @ map (\<lambda>k. (clock c + k * p, False)) [0..<Suc (n div p)]"
    by (simp_all add: p_def)
  have due: "(Suc (clock c + n) = clock c + p * Suc (n div p)) = (Suc n mod p = 0)"
    using div_step(1) [OF p, of n] by auto
  show ?case
  proof (cases "Suc n mod p = 0")
    case True
    with div_step [OF p, of n] have d: "Suc n div p = Suc (n div p)" "Suc n = p * Suc (n div p)"
      by simp_all
    have "clock c + Suc n = clock c + Suc (n div p) * p" using d(2) by (simp add: mult.commute)
    with True due w d(1) have
      "clock (tick ?w) = clock c + Suc n
       \<and> interval (tick ?w) = Some (p, clock c + p * Suc (Suc n div p))
       \<and> calls (tick ?w) = calls c @ map (\<lambda>k. (clock c + k * p, False)) [0..<Suc (Suc n div p)]"
      by (simp add: tick_def Let_def)
    then show ?thesis by (simp add: p_def)
  next
    case False
    with div_step [OF p, of n] have d: "Suc n div p = n div p" by simp
    with False due w have
      "clock (tick ?w) = clock c + Suc n
       \<and> interval (tick ?w) = Some (p, clock c + p * Suc (Suc n div p))
       \<and> calls (tick ?w) = calls c @ map (\<lambda>k. (clock c + k * p, False)) [0..<Suc (Suc n div p)]"
      by (simp add: tick_def Let_def)
    then show ?thesis by (simp add: p_def)
  qed
qed

lemma ticks_unmounted:
  "interval c = None \<Longrightarrow> interval ((tick ^^ m) c) = None \<and> calls ((tick ^^ m) c) = calls c"
  by (induction m) (simp_all add: tick_def Let_def)

text \<open>
  Claim C8. Mounting calls \<open>fetchPrices()\<close> at once. With the screen mounted at time
  \<open>t\<close>, after \<open>n\<close> milliseconds the calls made are those at \<open>t\<close>,
  \<open>t + 600000\<close>, \<open>t + 2 * 600000\<close> and so on up to \<open>t + n\<close>, each without
  \<open>isRefresh\<close>. After the cleanup of the effect has run, no amount of time adds a
  call.
\<close>

theorem mount_timer_unmount:
  "calls (mountEffect c) = calls c @ [(clock c, False)]
   \<and> calls ((tick ^^ n) (mountEffect c)) =
       calls c @ map (\<lambda>k. (clock c + k * 600000, False)) [0..<Suc (n div 600000)]
   \<and> calls ((tick ^^ m) (unmountEffect c)) = calls c"
  using ticks_mounted [of n c] ticks_unmounted [of "unmountEffect c" m]
  by (simp add: mountEffect_def unmountEffect_def Let_def)

section \<open>Properties of the login screen\<close>

lemma validate_error_irrelevant:
  "fst (validateInputs (s\<lparr>loginError := e\<rparr>)) = fst (validateInputs s)"
  by (simp add: validateInputs_def)

lemma validate_valid: "fst (validateInputs s) \<Longrightarrow> snd (validateInputs s) = s"
  by (simp add: validateInputs_def split: if_splits)

lemma handleLogin_valid:
  assumes "fst (validateInputs s)"
  shows "handleLogin net s =
     (case tryFetch (net (loginUrl s)) of
        Inr data \<Rightarrow>
          onLoginData data (s\<lparr>loginError := Some (JStr []), loginLoading := True,
                              requests := requests s @ [loginUrl s]\<rparr>)
      | Inl m \<Rightarrow>
          s\<lparr>loginError := Some (JStr (loginCatch m)), loginLoading := True,
            requests := requests s @ [loginUrl s]\<rparr>)
     \<lparr>loginLoading := False\<rparr>"
proof -
  let ?s1 = "s\<lparr>loginError := Some (JStr [])\<rparr>"
  from assms have "fst (validateInputs ?s1)" by (simp add: validate_error_irrelevant)
  then have v: "validateInputs ?s1 = (True, ?s1)"
    using validate_valid [of ?s1] by (cases "validateInputs ?s1") simp
  show ?thesis
    by (simp add: handleLogin_def v Let_def loginUrl_def split: sum.splits)
qed

lemma valid_example:
  "fst (validateInputs \<lparr>mobileNumber = ''9876543210'', password = ''secret'', loginLoading = False,
        loginError = Some (JStr []), requests = [], pushed = []\<rparr>)"
  by (simp add: validateInputs_def trim_def is_space_def)

text \<open>
  What the length test of \<open>validateInputs\<close> does reject: for every mobile number whose
  length, before trimming, is less than 10, \<open>handleLogin\<close> issues no request, does not
  navigate and leaves a validation message: that the mobile number is required when it is
  blank, else that the password is required when that is blank, else that the mobile
  number is not valid.
\<close>

theorem short_mobile_rejected:
  "length (mobileNumber s) < 10 \<Longrightarrow>
     requests (handleLogin net s) = requests s
     \<and> pushed (handleLogin net s) = pushed s
     \<and> loginLoading (handleLogin net s) = loginLoading s
     \<and> loginError (handleLogin net s) =
         Some (JStr (if trim (mobileNumber s) = [] then ''Mobile number is required''
                     else if trim (password s) = [] then ''Password is required''
                     else ''Please enter a valid mobile number''))"
  by (simp add: handleLogin_def validateInputs_def Let_def)

theorem short_mobile_rejected_witness:
  "length (mobileNumber \<lparr>mobileNumber = ''98765'', password = ''secret'', loginLoading = False,
        loginError = Some (JStr []), requests = [], pushed = []\<rparr>) < 10
   \<and> handleLogin (respond (Response 200 (Json (JObj [(''status'', JStr ''success'')]))))
        \<lparr>mobileNumber = ''98765'', password = ''secret'', loginLoading = False,
         loginError = Some (JStr []), requests = [], pushed = []\<rparr> =
      \<lparr>mobileNumber = ''98765'', password = ''secret'', loginLoading = False,
       loginError = Some (JStr ''Please enter a valid mobile number''), requests = [], pushed = []\<rparr>"
proof -
  let ?s = "\<lparr>mobileNumber = ''98765'', password = ''secret'', loginLoading = False,
        loginError = Some (JStr []), requests = [], pushed = []\<rparr>"
  let ?net = "respond (Response 200 (Json (JObj [(''status'', JStr ''success'')])))"
  have h: "length (mobileNumber ?s) < 10" by simp
  have t: "trim ''98765'' \<noteq> []" "trim ''secret'' \<noteq> []" by (simp_all add: trim_def is_space_def)
  have m: "mobileNumber (handleLogin ?net ?s) = ''98765''" "password (handleLogin ?net ?s) = ''secret''"
    by (simp_all add: handleLogin_def validateInputs_def Let_def)
  from short_mobile_rejected [OF h, of ?net] t m h show ?thesis by (cases "handleLogin ?net ?s") simp
qed

text \<open>
  Claim C3: a mobile number whose trimmed length is below 10 is to be rejected with no
  request issued. \<open>validateInputs\<close> trims the mobile number for the emptiness test and
  not for the length test, so the code does otherwise on the mobile number
  \<open>"12345     "\<close>, five digits and five spaces: its trimmed length is 5, its length is
  10, it passes validation and the request is issued with the padded number in the URL.
\<close>

theorem padded_mobile_reaches_network:
  "length (trim ''12345     '') < 10
   \<and> requests (handleLogin (respond (Rejected ''Network request failed''))
        \<lparr>mobileNumber = ''12345     '', password = ''secret'', loginLoading = False,
         loginError = Some (JStr []), requests = [], pushed = []\<rparr>) =
      [''http://smjuthangarai.in/RestApi/restApiPHP.php?option=LoginVerifyCustomer&mobileNumber=12345     &password=secret'']"
  by (simp add: handleLogin_def validateInputs_def Let_def trim_def is_space_def loginUrl_def respond_def)

text \<open>
  Claim C4, as amended. For input that passes validation and a response that parses to
  \<open>data\<close>, the client navigates to the dashboard if and only if \<open>data\<close> is truthy
  and \<open>status\<close> is \<open>"success"\<close>, or \<open>result\<close> is \<open>"success"\<close>, or
  \<open>message\<close> is \<open>"Login successful"\<close>; otherwise it does not navigate and the error
  shown is the \<open>message\<close> of the response when that is truthy, else the generic
  invalid-credentials message.
\<close>

theorem login_response_outcome:
  assumes "fst (validateInputs s)" and "tryFetch (net (loginUrl s)) = Inr data"
  shows "(pushed (handleLogin net s) = pushed s @ [''/dashboard'']) =
           (truthy data \<and>
             (getProp data ''status'' = Some (JStr ''success'')
              \<or> getProp data ''result'' = Some (JStr ''success'')
              \<or> getProp data ''message'' = Some (JStr ''Login successful'')))
         \<and> (pushed (handleLogin net s) = pushed s @ [''/dashboard'']
             \<or> pushed (handleLogin net s) = pushed s
                \<and> loginError (handleLogin net s) =
                    (if truthy_val (getProp data ''message'') then getProp data ''message''
                     else Some (JStr ''Invalid credentials. Please try again.'')))"
  by (simp add: handleLogin_valid [OF assms(1)] assms(2) onLoginData_def loginSuccess_def js_or_def)

theorem login_response_outcome_witness:
  "fst (validateInputs \<lparr>mobileNumber = ''9876543210'', password = ''secret'', loginLoading = False,
        loginError = Some (JStr []), requests = [], pushed = []\<rparr>)
   \<and> pushed (handleLogin (respond (Response 200 (Json (JObj [(''status'', JStr ''success'')]))))
        \<lparr>mobileNumber = ''9876543210'', password = ''secret'', loginLoading = False,
         loginError = Some (JStr []), requests = [], pushed = []\<rparr>) = [''/dashboard'']
   \<and> pushed (handleLogin (respond (Response 200 (Json (JObj [(''message'', JStr ''Invalid password'')]))))
        \<lparr>mobileNumber = ''9876543210'', password = ''secret'', loginLoading = False,
         loginError = Some (JStr []), requests = [], pushed = []\<rparr>) = []
   \<and> loginError (handleLogin (respond (Response 200 (Json (JObj [(''message'', JStr ''Invalid password'')]))))
        \<lparr>mobileNumber = ''9876543210'', password = ''secret'', loginLoading = False,
         loginError = Some (JStr []), requests = [], pushed = []\<rparr>) = Some (JStr ''Invalid password'')"
proof -
  let ?s = "\<lparr>mobileNumber = ''9876543210'', password = ''secret'', loginLoading = False,
        loginError = Some (JStr []), requests = [], pushed = []\<rparr>"
  let ?yes = "JObj [(''status'', JStr ''success'')]"
  let ?no = "JObj [(''message'', JStr ''Invalid password'')]"
  have y: "tryFetch (respond (Response 200 (Json ?yes)) (loginUrl ?s)) = Inr ?yes"
    by (simp add: respond_def ok_def)
  have n: "tryFetch (respond (Response 200 (Json ?no)) (loginUrl ?s)) = Inr ?no"
    by (simp add: respond_def ok_def)
  from login_response_outcome [where net = "respond (Response 200 (Json ?yes))", OF valid_example y] have 1: "pushed (handleLogin (respond (Response 200 (Json ?yes))) ?s) = [''/dashboard'']"
    by simp
  from login_response_outcome [where net = "respond (Response 200 (Json ?no))", OF valid_example n]
  have 2: "pushed (handleLogin (respond (Response 200 (Json ?no))) ?s) = []
     \<and> loginError (handleLogin (respond (Response 200 (Json ?no))) ?s) = Some (JStr ''Invalid password'')"
    by auto
  from valid_example 1 2 show ?thesis by simp
qed

text \<open>
  Claim C4 as stated fails: the response \<open>{"message": ""}\<close> has a \<open>message\<close>
  field, and the error shown is the generic message, not that field.
\<close>

theorem empty_message_shows_generic:
  "getProp (JObj [(''message'', JStr [])]) ''message'' = Some (JStr [])
   \<and> loginError (handleLogin (respond (Response 200 (Json (JObj [(''message'', JStr [])]))))
        \<lparr>mobileNumber = ''9876543210'', password = ''secret'', loginLoading = False,
         loginError = Some (JStr []), requests = [], pushed = []\<rparr>) =
      Some (JStr ''Invalid credentials. Please try again.'')"
  by (simp add: handleLogin_valid [OF valid_example] respond_def ok_def onLoginData_def
      loginSuccess_def js_or_def)

section \<open>Classification of caught errors\<close>

lemma str_includes_sublist: "str_includes s sub = sublist sub s"
  by (induction s) (auto simp: sublist_Cons_right)

lemma loginCatch_classify: "loginCatch m = loginMessage (classify m)"
  by (simp add: loginCatch_def classify_def str_includes_sublist)

lemma dashCatch_classify: "dashCatch m = dashMessage (classify m)"
  by (simp add: dashCatch_def classify_def str_includes_sublist)

text \<open>
  Claim C6. On both screens the message chosen in the \<open>catch\<close> block is the message
  of that screen for the kind of failure, and the kind is found by one rule: a text that
  contains \<open>"Network request failed"\<close> or \<open>"fetch"\<close> is a network error, else one
  that contains \<open>"timeout"\<close> is a timeout, else it is the generic failure. This is the
  error left in the state by every fetch whose \<open>try\<close> block throws.
\<close>

theorem catch_messages_same_rule:
  "loginCatch m = loginMessage (classify m)
   \<and> dashCatch m = dashMessage (classify m)
   \<and> (tryFetch r = Inl m \<longrightarrow> error (fetchPricesSettle r now d) = dashMessage (classify m))
   \<and> (fst (validateInputs s) \<and> tryFetch (net (loginUrl s)) = Inl m \<longrightarrow>
        loginError (handleLogin net s) = Some (JStr (loginMessage (classify m))))"
  by (auto simp: loginCatch_classify dashCatch_classify fetchPricesSettle_def handleLogin_valid)

theorem catch_messages_same_rule_witness:
  "tryFetch (Rejected ''Request timeout'') = Inl ''Request timeout''
   \<and> error (fetchPricesSettle (Rejected ''Request timeout'') 0 initialState) = ''Request timeout. Please try again.''
   \<and> fst (validateInputs \<lparr>mobileNumber = ''9876543210'', password = ''secret'', loginLoading = False,
        loginError = Some (JStr []), requests = [], pushed = []\<rparr>)
   \<and> loginError (handleLogin (respond (Rejected ''Request timeout''))
        \<lparr>mobileNumber = ''9876543210'', password = ''secret'', loginLoading = False,
         loginError = Some (JStr []), requests = [], pushed = []\<rparr>) = Some (JStr ''Request timeout. Please try again.'')"
proof -
  let ?s = "\<lparr>mobileNumber = ''9876543210'', password = ''secret'', loginLoading = False,
        loginError = Some (JStr []), requests = [], pushed = []\<rparr>"
  let ?m = "''Request timeout''"
  have k: "classify ?m = TimeoutError"
    by (simp add: classify_def sublist_code)
  have a: "tryFetch (Rejected ?m) = Inl ?m" by simp
  have b: "fst (validateInputs ?s) \<and> tryFetch (respond (Rejected ?m) (loginUrl ?s)) = Inl ?m"
    using valid_example by (simp add: respond_def)
  from catch_messages_same_rule [of ?m "Rejected ?m" 0 initialState ?s "respond (Rejected ?m)"] a b k
  show ?thesis by simp
qed

end
